theory Spec2Isabelle
  imports Main
begin

section \<open>Data model\<close>

text \<open>
  The three collections of the job board, as the Mongoose schemas declare them
  (\<^verbatim>\<open>models/applicationModel.js\<close>, the job schema, and the user documents the auth
  routes read and write). An ObjectId is represented by its canonical string form. A
  JavaScript string is a sequence of code units; here it is a \<^typ>\<open>string\<close>, one
  \<^typ>\<open>char\<close> per code unit.
\<close>

type_synonym objectId = string

record user =
  user_id :: objectId
  user_name :: string
  email :: string
  password :: string
  role :: string

record job =
  job_id :: objectId
  title :: string
  company :: string
  salary :: string
  location :: string
  description :: string
  postedBy :: objectId
  applicationCount :: int
  skillsRequired :: "string list"
  jobType :: string

record application =
  app_id :: objectId
  app_job :: objectId
  app_user :: objectId
  resume :: string
  coverLetter :: string
  status :: string
  createdAt :: nat
  updatedAt :: nat

text \<open>
  The database (three collections, in insertion order) and the upload directory
  (the names of the files present).
\<close>

record db =
  users :: "user list"
  jobs :: "job list"
  applications :: "application list"
  uploads :: "string list"

definition emptyDb :: db where
  "emptyDb = \<lparr>users = [], jobs = [], applications = [], uploads = []\<rparr>"

section \<open>JavaScript strings\<close>

text \<open>
  \<^verbatim>\<open>String.prototype.trim\<close> removes the white space and line terminators at both ends;
  \<^verbatim>\<open>toLowerCase\<close> maps the upper-case letters to lower case. Both are given for the code
  units below 256: tab, line feed, vertical tab, form feed, carriage return, space and
  the no-break space; the letters A to Z and the upper-case letters of Latin-1.
\<close>

definition isWhiteSpace :: "char \<Rightarrow> bool" where
  "isWhiteSpace c = ((of_char c :: nat) \<in> {9, 10, 11, 12, 13, 32, 160})"

definition trim :: "string \<Rightarrow> string" where
  "trim s = rev (dropWhile isWhiteSpace (rev (dropWhile isWhiteSpace s)))"

definition lowerChar :: "char \<Rightarrow> char" where
  "lowerChar c =
     (let n = (of_char c :: nat)
      in if (65 \<le> n \<and> n \<le> 90) \<or> (192 \<le> n \<and> n \<le> 222 \<and> n \<noteq> 215) then char_of (n + 32) else c)"

definition toLowerCase :: "string \<Rightarrow> string" where
  "toLowerCase s = map lowerChar s"

text \<open>A value of a request body is absent or a string; absent and empty are falsy.\<close>

definition falsy :: "string option \<Rightarrow> bool" where
  "falsy v = (case v of None \<Rightarrow> True | Some x \<Rightarrow> x = [])"

definition orElse :: "string option \<Rightarrow> string \<Rightarrow> string" where
  "orElse v d = (case v of None \<Rightarrow> d | Some x \<Rightarrow> if x = [] then d else x)"

section \<open>Libraries and environment\<close>

text \<open>
  \<^verbatim>\<open>mongoose.Types.ObjectId.isValid\<close> and the cast of a string to an ObjectId belong to
  the database driver; the handlers are parametric in them.
\<close>

record driver =
  isValid :: "string \<Rightarrow> bool"
  castId :: "string \<Rightarrow> objectId"

text \<open>
  A concrete driver for evaluating the handlers: the 24 hexadecimal digit form of an
  ObjectId, cast to lower case.
\<close>

definition isHexDigit :: "char \<Rightarrow> bool" where
  "isHexDigit c = (c \<in> set ''0123456789abcdefABCDEF'')"

definition hexDriver :: driver where
  "hexDriver = \<lparr>isValid = (\<lambda>s. length s = 24 \<and> list_all isHexDigit s), castId = toLowerCase\<rparr>"

text \<open>
  Every awaited call of a handler may reject; the handler's \<^verbatim>\<open>catch\<close> block then answers
  500. The environment of one request names the call that rejects (if any), the
  identifier and time the database assigns to a created document, and the salt bcrypt
  generates.
\<close>

datatype call =
    Job_find | Job_findById | Job_findOne | Job_save | Job_findByIdAndUpdate
  | Application_find | Application_findOne | Application_findById | Application_save
  | User_findOne | User_create
  | Bcrypt_genSalt | Bcrypt_hash | Bcrypt_compare | Jwt_sign

record env =
  fault :: "call option"
  newId :: objectId
  now :: nat
  salt :: string

definition rejects :: "env \<Rightarrow> call \<Rightarrow> bool" where
  "rejects e c = (fault e = Some c)"

section \<open>Responses\<close>

datatype payload =
    NoPayload
  | OneJob job
  | JobList "job list"
  | OneApplication application
  | ApplicationList "job option" "application list"
  | Session string objectId string string string
  | FileStream string string

record response =
  statusCode :: nat
  success :: bool
  message :: string
  body :: payload

definition failure :: "nat \<Rightarrow> string \<Rightarrow> response" where
  "failure c m = \<lparr>statusCode = c, success = False, message = m, body = NoPayload\<rparr>"

definition ok :: "nat \<Rightarrow> string \<Rightarrow> payload \<Rightarrow> response" where
  "ok c m p = \<lparr>statusCode = c, success = True, message = m, body = p\<rparr>"

section \<open>Middleware\<close>

text \<open>The identity \<^verbatim>\<open>req.user\<close>: the payload \<^verbatim>\<open>{id, role}\<close> of the verified token.\<close>

record identity =
  uid :: objectId
  urole :: string

text \<open>
  Modelled from the spec: \<^verbatim>\<open>middleware/authMiddleware\<close> (\<^verbatim>\<open>protect\<close>) is not among the
  source files. The spec's \<^verbatim>\<open>resolveToken\<close> verifies signature and expiry, fails with
  AuthError if the token is missing, malformed or expired, and otherwise yields
  \<^verbatim>\<open>{userId, role}\<close>. The outcome of the verification is the request's \<open>auth\<close> field.
\<close>

definition protect :: "identity option \<Rightarrow> (identity \<Rightarrow> response \<times> 's) \<Rightarrow> 's \<Rightarrow> response \<times> 's" where
  "protect a k s = (case a of None \<Rightarrow> (failure 401 ''Not authorized'', s) | Some u \<Rightarrow> k u)"

text \<open>
  Modelled from the spec: \<^verbatim>\<open>middleware/roleMiddleware\<close> (\<^verbatim>\<open>roleAuthorization\<close>) is not among
  the source files. The spec's role gate rejects the request with ForbiddenError if the
  resolved role is not a member of the allowed role set.
\<close>

definition roleAuthorization :: "string list \<Rightarrow> identity \<Rightarrow> (response \<times> 's) \<Rightarrow> 's \<Rightarrow> response \<times> 's" where
  "roleAuthorization allowed u k s =
     (if urole u \<in> set allowed then k else (failure 403 ''Access denied'', s))"

section \<open>Application routes\<close>

subsection \<open>Schema validation\<close>

text \<open>
  \<^verbatim>\<open>applicationSchema\<close>: \<open>job\<close>, \<open>user\<close>, \<open>resume\<close> and \<open>coverLetter\<close> are required, and
  \<open>status\<close> is one of the four enumerated values. Mongoose's \<open>required\<close> validator of a
  String path rejects the empty string. The two references are ObjectIds the handler
  always sets, so their \<open>required\<close> validators cannot fail.
\<close>

definition validStatuses :: "string list" where
  "validStatuses = [''pending'', ''reviewed'', ''rejected'', ''accepted'']"

definition applicationSchema :: "application \<Rightarrow> bool" where
  "applicationSchema a =
     (resume a \<noteq> [] \<and> coverLetter a \<noteq> [] \<and> status a \<in> set validStatuses)"

subsection \<open>POST /api/applications\<close>

text \<open>
  Modelled from the spec: \<^verbatim>\<open>middleware/fileUpload\<close> is not among the source files. Per the
  spec an upload stores the file under a uniquely generated filename in one flat
  directory. The outcome of \<^verbatim>\<open>upload.single('resume')\<close> is part of the request: an error
  with its message, which the route answers with 400, or the stored file's name if a
  file was attached.
\<close>

datatype upload_outcome = UploadError string | Uploaded "string option"

record submission =
  s_auth :: "identity option"
  s_upload :: upload_outcome
  s_jobId :: "string option"
  s_coverLetter :: "string option"

definition findById :: "objectId \<Rightarrow> job list \<Rightarrow> job option" where
  "findById i js = find (\<lambda>j. job_id j = i) js"

fun incApplicationCount :: "objectId \<Rightarrow> job list \<Rightarrow> job list" where
  "incApplicationCount i [] = []"
| "incApplicationCount i (j # js) =
     (if job_id j = i then j\<lparr>applicationCount := applicationCount j + 1\<rparr> # js
      else j # incApplicationCount i js)"

text \<open>
  The document \<^verbatim>\<open>new Application({job, user, resume, coverLetter, status: 'pending'})\<close>,
  with the identifier and timestamps the database gives it.
\<close>

definition newApplication :: "driver \<Rightarrow> env \<Rightarrow> identity \<Rightarrow> string \<Rightarrow> string \<Rightarrow> string \<Rightarrow> application" where
  "newApplication drv e u jobId filename letter =
     \<lparr>app_id = newId e, app_job = castId drv jobId, app_user = uid u, resume = filename,
      coverLetter = letter, status = ''pending'', createdAt = now e, updatedAt = now e\<rparr>"

definition serverError :: "string \<Rightarrow> response" where
  "serverError m = failure 500 m"

definition applyHandler :: "driver \<Rightarrow> env \<Rightarrow> identity \<Rightarrow> string option \<Rightarrow> submission \<Rightarrow> db \<Rightarrow> response \<times> db" where
  "applyHandler drv e u file r s =
     (let err = serverError ''Server error during application submission'' in
      case file of
        None \<Rightarrow> (failure 400 ''Resume file is required'', s)
      | Some filename \<Rightarrow>
      (case s_jobId r of
        None \<Rightarrow> (failure 400 ''Job ID is required'', s)
      | Some jobId \<Rightarrow>
        if jobId = [] then (failure 400 ''Job ID is required'', s)
        else if \<not> isValid drv jobId then (failure 400 ''Invalid job ID format'', s)
        else if rejects e Job_findById then (err, s)
        else (case findById (castId drv jobId) (jobs s) of
          None \<Rightarrow> (failure 404 ''Job not found'', s)
        | Some j \<Rightarrow>
          if rejects e Application_findOne then (err, s)
          else (case find (\<lambda>a. app_job a = castId drv jobId \<and> app_user a = uid u)
                      (applications s) of
            Some existing \<Rightarrow> (failure 400 ''You have already applied for this job'', s)
          | None \<Rightarrow>
            let a = newApplication drv e u jobId filename (orElse (s_coverLetter r) []) in
            if rejects e Application_save \<or> \<not> applicationSchema a then (err, s)
            else
              let s1 = s\<lparr>applications := applications s @ [a]\<rparr> in
              if rejects e Job_findByIdAndUpdate then (err, s1)
              else
                let s2 = s1\<lparr>jobs := incApplicationCount (castId drv jobId) (jobs s1)\<rparr> in
                if rejects e Application_findById then (err, s2)
                else (case find (\<lambda>x. app_id x = newId e) (applications s2) of
                  None \<Rightarrow> (err, s2)
                | Some p \<Rightarrow>
                    (ok 201 ''Application submitted successfully'' (OneApplication p), s2))))))"

definition applyRoute :: "driver \<Rightarrow> env \<Rightarrow> submission \<Rightarrow> db \<Rightarrow> response \<times> db" where
  "applyRoute drv e r s =
     protect (s_auth r) (\<lambda>u.
       roleAuthorization [''jobSeeker''] u
         (case s_upload r of
            UploadError m \<Rightarrow> (failure 400 m, s)
          | Uploaded None \<Rightarrow> applyHandler drv e u None r s
          | Uploaded (Some f) \<Rightarrow> applyHandler drv e u (Some f) r (s\<lparr>uploads := f # uploads s\<rparr>))
         s) s"

subsection \<open>The submission handler at its awaits\<close>

text \<open>
  The handler suspends at each \<^verbatim>\<open>await\<close>, and the handlers of other requests run in
  between. It is cut here at the answer of \<^verbatim>\<open>Application.findOne\<close>: \<open>applyCheck\<close> is the
  handler up to the duplicate check (it reads the database and changes nothing) and
  ends with an answer or with the document about to be saved; \<open>applyStore\<close> is the
  handler from \<^verbatim>\<open>application.save()\<close> on.
\<close>

definition applyCheck :: "driver \<Rightarrow> env \<Rightarrow> identity \<Rightarrow> string option \<Rightarrow> submission \<Rightarrow> db \<Rightarrow> response + application" where
  "applyCheck drv e u file r s =
     (let err = serverError ''Server error during application submission'' in
      case file of
        None \<Rightarrow> Inl (failure 400 ''Resume file is required'')
      | Some filename \<Rightarrow>
      (case s_jobId r of
        None \<Rightarrow> Inl (failure 400 ''Job ID is required'')
      | Some jobId \<Rightarrow>
        if jobId = [] then Inl (failure 400 ''Job ID is required'')
        else if \<not> isValid drv jobId then Inl (failure 400 ''Invalid job ID format'')
        else if rejects e Job_findById then Inl err
        else (case findById (castId drv jobId) (jobs s) of
          None \<Rightarrow> Inl (failure 404 ''Job not found'')
        | Some j \<Rightarrow>
          if rejects e Application_findOne then Inl err
          else (case find (\<lambda>a. app_job a = castId drv jobId \<and> app_user a = uid u)
                      (applications s) of
            Some existing \<Rightarrow> Inl (failure 400 ''You have already applied for this job'')
          | None \<Rightarrow>
              Inr (newApplication drv e u jobId filename (orElse (s_coverLetter r) []))))))"

definition applyStore :: "env \<Rightarrow> application \<Rightarrow> db \<Rightarrow> response \<times> db" where
  "applyStore e a s =
     (let err = serverError ''Server error during application submission'' in
      if rejects e Application_save \<or> \<not> applicationSchema a then (err, s)
      else
        let s1 = s\<lparr>applications := applications s @ [a]\<rparr> in
        if rejects e Job_findByIdAndUpdate then (err, s1)
        else
          let s2 = s1\<lparr>jobs := incApplicationCount (app_job a) (jobs s1)\<rparr> in
          if rejects e Application_findById then (err, s2)
          else (case find (\<lambda>x. app_id x = app_id a) (applications s2) of
            None \<Rightarrow> (err, s2)
          | Some p \<Rightarrow>
              (ok 201 ''Application submitted successfully'' (OneApplication p), s2)))"

text \<open>The route up to the same point: the three middlewares, then \<open>applyCheck\<close>.\<close>

definition beginApply :: "driver \<Rightarrow> env \<Rightarrow> submission \<Rightarrow> db \<Rightarrow> (response + application) \<times> db" where
  "beginApply drv e r s =
     (case s_auth r of
        None \<Rightarrow> (Inl (failure 401 ''Not authorized''), s)
      | Some u \<Rightarrow>
          if urole u \<notin> set [''jobSeeker''] then (Inl (failure 403 ''Access denied''), s)
          else (case s_upload r of
             UploadError m \<Rightarrow> (Inl (failure 400 m), s)
           | Uploaded None \<Rightarrow> (applyCheck drv e u None r s, s)
           | Uploaded (Some f) \<Rightarrow>
               (applyCheck drv e u (Some f) r (s\<lparr>uploads := f # uploads s\<rparr>),
                s\<lparr>uploads := f # uploads s\<rparr>)))"

text \<open>
  The server handling several submissions: the database, the documents of the
  requests that passed their checks and have not saved yet, and the answers given.
  \<open>Begin i e r\<close> runs request \<open>i\<close> up to its suspension, \<open>Finish i\<close> resumes it. A run is
  any list of such events; in \<open>inTurn\<close> every request is finished before the next
  begins.
\<close>

record server =
  store :: db
  pending :: "(nat \<times> env \<times> application) list"
  answers :: "(nat \<times> response) list"

definition idle :: "db \<Rightarrow> server" where
  "idle s = \<lparr>store = s, pending = [], answers = []\<rparr>"

datatype event = Begin nat env submission | Finish nat

fun step :: "driver \<Rightarrow> server \<Rightarrow> event \<Rightarrow> server" where
  "step drv v (Begin i e r) =
     (case beginApply drv e r (store v) of
        (Inl x, s') \<Rightarrow> v\<lparr>store := s', answers := answers v @ [(i, x)]\<rparr>
      | (Inr a, s') \<Rightarrow> v\<lparr>store := s', pending := pending v @ [(i, e, a)]\<rparr>)"
| "step drv v (Finish i) =
     (case map_of (pending v) i of
        None \<Rightarrow> v
      | Some (e, a) \<Rightarrow>
          v\<lparr>store := snd (applyStore e a (store v)),
            pending := filter (\<lambda>p. fst p \<noteq> i) (pending v),
            answers := answers v @ [(i, fst (applyStore e a (store v)))]\<rparr>)"

definition run :: "driver \<Rightarrow> event list \<Rightarrow> server \<Rightarrow> server" where
  "run drv evs v = foldl (step drv) v evs"

fun inTurn :: "nat \<Rightarrow> (env \<times> submission) list \<Rightarrow> event list" where
  "inTurn n [] = []"
| "inTurn n (x # xs) = Begin n (fst x) (snd x) # Finish n # inTurn (Suc n) xs"

subsection \<open>GET /api/applications/resume/:filename\<close>

text \<open>
  \<^verbatim>\<open>path.extname\<close> of a name without directory separators: from the last dot to the
  end, and empty when there is no dot, when the only dot is the first character, or for
  the name \<^verbatim>\<open>..\<close>.
\<close>

definition extname :: "string \<Rightarrow> string" where
  "extname f =
     (let r = takeWhile (\<lambda>c. c \<noteq> CHR ''.'') (rev f)
      in if length r = length f \<or> length r + 1 = length f \<or> f = ''..'' then []
         else CHR ''.'' # rev r)"

definition contentType :: "string \<Rightarrow> string" where
  "contentType filename =
     (let ext = toLowerCase (extname filename)
      in if ext = ''.pdf'' then ''application/pdf''
         else if ext = ''.doc'' then ''application/msword''
         else if ext = ''.docx''
           then ''application/vnd.openxmlformats-officedocument.wordprocessingml.document''
         else ''application/octet-stream'')"

text \<open>The ids of the jobs a user posted: \<^verbatim>\<open>Job.find({postedBy}).distinct('_id')\<close>.\<close>

definition postedJobIds :: "objectId \<Rightarrow> db \<Rightarrow> objectId list" where
  "postedJobIds u s = remdups (map job_id (filter (\<lambda>j. postedBy j = u) (jobs s)))"

definition resumeRoute :: "env \<Rightarrow> identity option \<Rightarrow> string \<Rightarrow> db \<Rightarrow> response \<times> db" where
  "resumeRoute e a filename s =
     protect a (\<lambda>u.
       let err = serverError ''Server error during resume download'' in
       if rejects e Job_find then (err, s)
       else if rejects e Application_findOne then (err, s)
       else (case find (\<lambda>x. resume x = filename \<and>
                             (app_user x = uid u \<or> app_job x \<in> set (postedJobIds (uid u) s)))
                    (applications s) of
          None \<Rightarrow> (failure 403 ''Not authorized to access this file'', s)
        | Some x \<Rightarrow>
            if filename \<notin> set (uploads s) then (failure 404 ''Resume file not found'', s)
            else (ok 200 [] (FileStream (contentType filename) filename), s))) s"

subsection \<open>GET /api/applications/job/:jobId\<close>

definition newestFirst :: "application list \<Rightarrow> application list" where
  "newestFirst xs = sort_key (\<lambda>x. - int (createdAt x)) xs"

definition jobApplicationsRoute :: "driver \<Rightarrow> env \<Rightarrow> identity option \<Rightarrow> string \<Rightarrow> db \<Rightarrow> response \<times> db" where
  "jobApplicationsRoute drv e a jobId s =
     protect a (\<lambda>u.
       roleAuthorization [''company''] u
         (let err = serverError ''Server error fetching applications'' in
          if \<not> isValid drv jobId then (failure 400 ''Invalid job ID format'', s)
          else if rejects e Job_findOne then (err, s)
          else (case find (\<lambda>j. job_id j = castId drv jobId \<and> postedBy j = uid u) (jobs s) of
             None \<Rightarrow> (failure 404 ''Job not found or not authorized'', s)
           | Some j \<Rightarrow>
               if rejects e Application_find then (err, s)
               else (ok 200 []
                       (ApplicationList (Some j)
                          (newestFirst (filter (\<lambda>x. app_job x = castId drv jobId) (applications s)))),
                     s)))
         s) s"

section \<open>Job routes\<close>

subsection \<open>Schema\<close>

definition jobTypes :: "string list" where
  "jobTypes = [''full-time'', ''part-time'', ''contract'', ''internship'', ''remote'']"

definition jobSchema :: "job \<Rightarrow> bool" where
  "jobSchema j =
     (title j \<noteq> [] \<and> length (title j) \<le> 100 \<and> company j \<noteq> [] \<and> length (company j) \<le> 100
      \<and> salary j \<noteq> [] \<and> location j \<noteq> [] \<and> description j \<noteq> []
      \<and> jobType j \<in> set jobTypes)"

record job_body =
  b_title :: "string option"
  b_company :: "string option"
  b_salary :: "string option"
  b_location :: "string option"
  b_description :: "string option"
  b_applicationCount :: "int option"
  b_skillsRequired :: "string list option"
  b_jobType :: "string option"

text \<open>
  \<^verbatim>\<open>new Job({...req.body, postedBy: req.user.id})\<close>: the string paths are trimmed, the
  absent ones take their defaults.
\<close>

definition newJob :: "env \<Rightarrow> identity \<Rightarrow> job_body \<Rightarrow> job" where
  "newJob e u b =
     \<lparr>job_id = newId e,
      title = trim (case b_title b of None \<Rightarrow> [] | Some x \<Rightarrow> x),
      company = trim (case b_company b of None \<Rightarrow> [] | Some x \<Rightarrow> x),
      salary = trim (case b_salary b of None \<Rightarrow> [] | Some x \<Rightarrow> x),
      location = trim (case b_location b of None \<Rightarrow> [] | Some x \<Rightarrow> x),
      description = trim (case b_description b of None \<Rightarrow> [] | Some x \<Rightarrow> x),
      postedBy = uid u,
      applicationCount = (case b_applicationCount b of None \<Rightarrow> 0 | Some n \<Rightarrow> n),
      skillsRequired = (case b_skillsRequired b of None \<Rightarrow> [] | Some xs \<Rightarrow> xs),
      jobType = (case b_jobType b of None \<Rightarrow> ''full-time'' | Some t \<Rightarrow> t)\<rparr>"

subsection \<open>Handlers\<close>

definition listJobs :: "env \<Rightarrow> db \<Rightarrow> response \<times> db" where
  "listJobs e s =
     (if rejects e Job_find then (serverError ''Error fetching jobs'', s)
      else (ok 200 [] (JobList (jobs s)), s))"

definition createJob :: "env \<Rightarrow> identity option \<Rightarrow> job_body \<Rightarrow> db \<Rightarrow> response \<times> db" where
  "createJob e a b s =
     protect a (\<lambda>u.
       roleAuthorization [''company''] u
         (let j = newJob e u b in
          if rejects e Job_save \<or> \<not> jobSchema j then (serverError ''Error posting job'', s)
          else (ok 201 ''Job posted successfully'' (OneJob j), s\<lparr>jobs := jobs s @ [j]\<rparr>))
         s) s"

text \<open>
  \<^verbatim>\<open>routes/jobRoutes.js\<close> requires express, the Job model and the two middlewares; it has
  no binding for the identifier \<^verbatim>\<open>mongoose\<close> that the handler of \<^verbatim>\<open>GET /:id\<close> reads. The
  handler is written over the binding of its module scope: with none, evaluating
  \<^verbatim>\<open>mongoose.Types.ObjectId.isValid\<close> throws a ReferenceError inside the \<^verbatim>\<open>try\<close> block.
\<close>

definition jobRoutes_mongoose :: "driver option" where
  "jobRoutes_mongoose = None"

definition getJobIn :: "driver option \<Rightarrow> env \<Rightarrow> identity option \<Rightarrow> string \<Rightarrow> db \<Rightarrow> response \<times> db" where
  "getJobIn scope e a i s =
     protect a (\<lambda>u.
       let err = serverError ''Server error while fetching job'' in
       case scope of
         None \<Rightarrow> (err, s)
       | Some drv \<Rightarrow>
           if \<not> isValid drv i then (failure 400 ''Invalid job ID format'', s)
           else if rejects e Job_findById then (err, s)
           else (case findById (castId drv i) (jobs s) of
              None \<Rightarrow> (failure 404 ''Job not found'', s)
            | Some j \<Rightarrow>
                if urole u = ''company'' then
                  (case find (\<lambda>p. user_id p = postedBy j) (users s) of
                     None \<Rightarrow> (err, s)
                   | Some p \<Rightarrow>
                       if user_id p \<noteq> uid u
                       then (failure 403 ''Not authorized to view this job'', s)
                       else (ok 200 [] (OneJob j), s))
                else (ok 200 [] (OneJob j), s))) s"

definition getJob :: "env \<Rightarrow> identity option \<Rightarrow> string \<Rightarrow> db \<Rightarrow> response \<times> db" where
  "getJob = getJobIn jobRoutes_mongoose"

definition myJobs :: "env \<Rightarrow> identity option \<Rightarrow> db \<Rightarrow> response \<times> db" where
  "myJobs e a s =
     protect a (\<lambda>u.
       roleAuthorization [''company''] u
         (if rejects e Job_find then (serverError ''Error fetching your jobs'', s)
          else (ok 200 [] (JobList (filter (\<lambda>j. postedBy j = uid u) (jobs s))), s))
         s) s"

subsection \<open>The router\<close>

text \<open>
  Express tries the routes of a router in the order of their registration and runs the
  first whose method and path match; none of the four handlers passes the request on.
  A path below the mount point \<^verbatim>\<open>/api/jobs\<close> is the list of its segments. \<^verbatim>\<open>/:id\<close> matches
  any single segment, \<^verbatim>\<open>/my\<close> the segment \<^verbatim>\<open>my\<close> in any letter case.
\<close>

datatype http_method = GET | POST | PUT

datatype pattern = Root | Param | Literal string

fun matches :: "pattern \<Rightarrow> string list \<Rightarrow> bool" where
  "matches Root p = (p = [])"
| "matches Param p = (case p of [x] \<Rightarrow> x \<noteq> [] | _ \<Rightarrow> False)"
| "matches (Literal l) p = (case p of [x] \<Rightarrow> toLowerCase x = l | _ \<Rightarrow> False)"

datatype endpoint = ListJobs | CreateJob | GetJob | MyJobs

definition jobRoutes :: "(http_method \<times> pattern \<times> endpoint) list" where
  "jobRoutes =
     [(GET, Root, ListJobs), (POST, Root, CreateJob), (GET, Param, GetJob),
      (GET, Literal ''my'', MyJobs)]"

definition dispatch :: "http_method \<Rightarrow> string list \<Rightarrow> endpoint option" where
  "dispatch m p =
     map_option (\<lambda>r. snd (snd r)) (find (\<lambda>r. fst r = m \<and> matches (fst (snd r)) p) jobRoutes)"

record job_request =
  j_method :: http_method
  j_path :: "string list"
  j_auth :: "identity option"
  j_body :: job_body

definition jobRouter :: "env \<Rightarrow> job_request \<Rightarrow> db \<Rightarrow> response \<times> db" where
  "jobRouter e r s =
     (case dispatch (j_method r) (j_path r) of
        None \<Rightarrow> (failure 404 ''Not Found'', s)
      | Some ListJobs \<Rightarrow> listJobs e s
      | Some CreateJob \<Rightarrow> createJob e (j_auth r) (j_body r) s
      | Some GetJob \<Rightarrow>
          (case j_path r of
             [i] \<Rightarrow> getJob e (j_auth r) i s
           | _ \<Rightarrow> (failure 404 ''Not Found'', s))
      | Some MyJobs \<Rightarrow> myJobs e (j_auth r) s)"

section \<open>Auth routes\<close>

text \<open>
  bcrypt and the token signature are libraries; the handlers are parametric in them.
\<close>

record crypto =
  bcrypt_hash :: "string \<Rightarrow> string \<Rightarrow> string"
  bcrypt_compare :: "string \<Rightarrow> string \<Rightarrow> bool"
  jwt_sign :: "objectId \<Rightarrow> string \<Rightarrow> string"

text \<open>
  The test \<^verbatim>\<open>/^[^\s@]+@[^\s@]+\.[^\s@]+$/\<close>: a non-empty run of characters that are
  neither white space nor \<^verbatim>\<open>@\<close>, then \<^verbatim>\<open>@\<close>, then such characters to the end, with a dot
  among them that is neither the first nor the last.
\<close>

definition emailChar :: "char \<Rightarrow> bool" where
  "emailChar c = (\<not> isWhiteSpace c \<and> c \<noteq> CHR ''@'')"

definition emailRegex :: "string \<Rightarrow> bool" where
  "emailRegex s =
     (takeWhile emailChar s \<noteq> [] \<and>
      (case dropWhile emailChar s of
         [] \<Rightarrow> False
       | c # t \<Rightarrow> c = CHR ''@'' \<and> list_all emailChar t \<and> CHR ''.'' \<in> set (butlast (tl t))))"

record signup_body =
  b_name :: "string option"
  b_email :: "string option"
  b_password :: "string option"
  b_role :: "string option"

definition validateSignup :: "signup_body \<Rightarrow> response option" where
  "validateSignup b =
     (if falsy (b_name b) \<or> falsy (b_email b) \<or> falsy (b_password b)
        then Some (failure 400 ''All fields are required'')
      else if \<not> emailRegex (orElse (b_email b) [])
        then Some (failure 400 ''Invalid email format'')
      else if length (orElse (b_password b) []) < 6
        then Some (failure 400 ''Password must be at least 6 characters'')
      else None)"

definition signupHandler :: "crypto \<Rightarrow> env \<Rightarrow> signup_body \<Rightarrow> db \<Rightarrow> response \<times> db" where
  "signupHandler cr e b s =
     (let err = serverError ''Server error during registration'';
          name = trim (orElse (b_name b) []);
          mail = toLowerCase (trim (orElse (b_email b) []));
          pw = trim (orElse (b_password b) []);
          rl = trim (orElse (b_role b) ''jobSeeker'')
      in if rejects e User_findOne then (err, s)
         else (case find (\<lambda>x. email x = mail) (users s) of
            Some existing \<Rightarrow> (failure 400 ''Email already registered'', s)
          | None \<Rightarrow>
              if rejects e Bcrypt_genSalt \<or> rejects e Bcrypt_hash \<or> rejects e User_create
                then (err, s)
              else
                let newUser = \<lparr>user_id = newId e, user_name = name, email = mail,
                               password = bcrypt_hash cr pw (salt e), role = rl\<rparr>;
                    s1 = s\<lparr>users := users s @ [newUser]\<rparr>
                in if rejects e Jwt_sign then (err, s1)
                   else (ok 201 ''Registration successful''
                           (Session (jwt_sign cr (user_id newUser) (role newUser))
                              (user_id newUser) (user_name newUser) (email newUser) (role newUser)),
                         s1)))"

definition signupRoute :: "crypto \<Rightarrow> env \<Rightarrow> signup_body \<Rightarrow> db \<Rightarrow> response \<times> db" where
  "signupRoute cr e b s =
     (case validateSignup b of Some r \<Rightarrow> (r, s) | None \<Rightarrow> signupHandler cr e b s)"

record login_body =
  l_email :: "string option"
  l_password :: "string option"

text \<open>
  The normalised credentials of a login (\<^verbatim>\<open>email?.trim().toLowerCase()\<close>,
  \<^verbatim>\<open>password?.trim()\<close>) and the lookup \<^verbatim>\<open>User.findOne({ email })\<close>.
\<close>

definition loginEmail :: "login_body \<Rightarrow> string option" where
  "loginEmail b = map_option (\<lambda>x. toLowerCase (trim x)) (l_email b)"

definition loginPassword :: "login_body \<Rightarrow> string option" where
  "loginPassword b = map_option trim (l_password b)"

definition findUser :: "string option \<Rightarrow> db \<Rightarrow> user option" where
  "findUser mail s = find (\<lambda>x. Some (email x) = mail) (users s)"

definition loginRoute :: "crypto \<Rightarrow> env \<Rightarrow> login_body \<Rightarrow> db \<Rightarrow> response \<times> db" where
  "loginRoute cr e b s =
     (let err = serverError ''Server error during login'';
          mail = loginEmail b;
          pw = loginPassword b
      in if falsy mail \<or> falsy pw then (failure 400 ''Email and password required'', s)
         else if rejects e User_findOne then (err, s)
         else (case findUser mail s of
            None \<Rightarrow> (failure 400 ''Invalid credentials'', s)
          | Some u \<Rightarrow>
              if password u = [] then (failure 400 ''Invalid credentials'', s)
              else if rejects e Bcrypt_compare then (err, s)
              else if \<not> bcrypt_compare cr (orElse pw []) (password u)
                then (failure 400 ''Invalid credentials'', s)
              else if rejects e Jwt_sign then (err, s)
              else (ok 200 ''Login successful''
                      (Session (jwt_sign cr (user_id u) (role u))
                         (user_id u) (user_name u) (email u) (role u)),
                    s)))"

section \<open>Derived notions and example data\<close>

text \<open>At most one application per (job, user) pair.\<close>

definition uniquePairs :: "db \<Rightarrow> bool" where
  "uniquePairs s = distinct (map (\<lambda>a. (app_job a, app_user a)) (applications s))"

text \<open>Every application refers to a job of the database.\<close>

definition jobsPresent :: "db \<Rightarrow> bool" where
  "jobsPresent s = list_all (\<lambda>a. findById (app_job a) (jobs s) \<noteq> None) (applications s)"

text \<open>Every job's counter equals the number of applications that refer to it.\<close>

definition countConsistent :: "db \<Rightarrow> bool" where
  "countConsistent s =
     list_all (\<lambda>j. applicationCount j = int (length (filter (\<lambda>a. app_job a = job_id j) (applications s))))
       (jobs s)"

text \<open>A company with one posting, a second company, and a job seeker.\<close>

definition acme :: identity where
  "acme = \<lparr>uid = ''aaaaaaaaaaaaaaaaaaaaaaaa'', urole = ''company''\<rparr>"

definition globex :: identity where
  "globex = \<lparr>uid = ''cccccccccccccccccccccccc'', urole = ''company''\<rparr>"

definition bob :: identity where
  "bob = \<lparr>uid = ''bbbbbbbbbbbbbbbbbbbbbbbb'', urole = ''jobSeeker''\<rparr>"

definition jobJ :: job where
  "jobJ = \<lparr>job_id = ''64b7f0c2a1d3e4f5a6b7c8d9'', title = ''Engineer'', company = ''Acme'',
      salary = ''100'', location = ''Colombo'', description = ''Builds things'',
      postedBy = ''aaaaaaaaaaaaaaaaaaaaaaaa'', applicationCount = 0, skillsRequired = [],
      jobType = ''full-time''\<rparr>"

definition dbJ :: db where
  "dbJ = \<lparr>users = [], jobs = [jobJ], applications = [], uploads = []\<rparr>"

definition quiet :: env where
  "quiet = \<lparr>fault = None, newId = ''111111111111111111111111'', now = 5, salt = ''salt''\<rparr>"

text \<open>The job seeker's submission to the posting, with a resume file and a cover letter.\<close>

definition bobApplies :: submission where
  "bobApplies = \<lparr>s_auth = Some bob, s_upload = Uploaded (Some ''resume-1.pdf''),
      s_jobId = Some ''64b7f0c2a1d3e4f5a6b7c8d9'', s_coverLetter = Some ''Dear Acme''\<rparr>"

text \<open>A stand-in for bcrypt and the token signature, for evaluating the auth routes.\<close>

definition toyCrypto :: crypto where
  "toyCrypto = \<lparr>bcrypt_hash = (\<lambda>p s. s @ ''$'' @ p),
      bcrypt_compare = (\<lambda>p h. h = ''salt$'' @ p),
      jwt_sign = (\<lambda>i r. i @ ''.'' @ r)\<rparr>"

definition alice :: user where
  "alice = \<lparr>user_id = ''dddddddddddddddddddddddd'', user_name = ''Alice'',
      email = ''alice@x.com'', password = ''salt$secret1'', role = ''jobSeeker''\<rparr>"

definition dbA :: db where
  "dbA = \<lparr>users = [alice], jobs = [], applications = [], uploads = []\<rparr>"

text \<open>The environment in which the update of the job's counter rejects.\<close>

definition refusingUpdate :: env where
  "refusingUpdate = quiet\<lparr>fault := Some Job_findByIdAndUpdate\<rparr>"

text \<open>
  The database after the job seeker's application was stored, with the file missing
  from the upload directory.
\<close>

definition bobsApplication :: application where
  "bobsApplication = newApplication hexDriver quiet bob ''64b7f0c2a1d3e4f5a6b7c8d9''
      ''resume-1.pdf'' ''Dear Acme''"

definition dbNoFile :: db where
  "dbNoFile = \<lparr>users = [], jobs = [jobJ], applications = [bobsApplication], uploads = []\<rparr>"

text \<open>
  A second request of the job seeker for the same posting, in an environment that
  assigns another identifier, and the run in which both requests pass their checks
  before either saves.
\<close>

definition quiet2 :: env where
  "quiet2 = \<lparr>fault = None, newId = ''222222222222222222222222'', now = 6, salt = ''salt''\<rparr>"

definition overlapping :: "event list" where
  "overlapping = [Begin 0 quiet bobApplies, Begin 1 quiet2 bobApplies, Finish 0, Finish 1]"

text \<open>
  The database after the job seeker's first submission, and after a second one that
  was refused (its file stays in the upload directory).
\<close>

definition dbB :: db where
  "dbB = \<lparr>users = [], jobs = [jobJ\<lparr>applicationCount := 1\<rparr>], applications = [bobsApplication],
      uploads = [''resume-1.pdf'']\<rparr>"

definition dbB2 :: db where
  "dbB2 = dbB\<lparr>uploads := [''resume-1.pdf'', ''resume-1.pdf'']\<rparr>"

text \<open>A registration, and two login attempts that fail.\<close>

definition newcomer :: signup_body where
  "newcomer = \<lparr>b_name = Some ''Carol'', b_email = Some ''carol@x.com'',
      b_password = Some ''secret2'', b_role = None\<rparr>"

definition unknownLogin :: login_body where
  "unknownLogin = \<lparr>l_email = Some ''nobody@x.com'', l_password = Some ''secret1''\<rparr>"

definition wrongLogin :: login_body where
  "wrongLogin = \<lparr>l_email = Some ''alice@x.com'', l_password = Some ''wrong''\<rparr>"

section \<open>Auxiliary facts\<close>

lemmas example_defs = acme_def globex_def bob_def jobJ_def dbJ_def quiet_def bobApplies_def
  toyCrypto_def alice_def dbA_def refusingUpdate_def bobsApplication_def dbNoFile_def
  newcomer_def unknownLogin_def wrongLogin_def quiet2_def overlapping_def
lemmas response_defs = failure_def ok_def serverError_def
lemmas hex_defs = hexDriver_def isHexDigit_def toLowerCase_def lowerChar_def

lemma find_SomeD: "find P xs = Some x \<Longrightarrow> P x \<and> x \<in> set xs"
  by (induction xs) (auto split: if_splits)

lemma dispatch_never_MyJobs: "dispatch m p \<noteq> Some MyJobs"
proof (cases m)
  case GET
  show ?thesis
  proof (cases p)
    case Nil
    with GET show ?thesis by (simp add: dispatch_def jobRoutes_def)
  next
    case (Cons x xs)
    with GET show ?thesis
      by (cases xs; cases x) (auto simp add: dispatch_def jobRoutes_def toLowerCase_def)
  qed
qed (auto simp add: dispatch_def jobRoutes_def split: list.splits)

lemmas apply_defs = applyRoute_def applyHandler_def protect_def roleAuthorization_def rejects_def

lemma find_append_last: "P a \<Longrightarrow> find P (xs @ [a]) \<noteq> None"
  by (auto simp add: find_None_iff)

lemma findById_iff: "findById i js \<noteq> None \<longleftrightarrow> i \<in> job_id ` set js"
  by (auto simp add: findById_def find_None_iff)

lemma job_ids_incApplicationCount: "map job_id (incApplicationCount i js) = map job_id js"
  by (induction js) auto

text \<open>The effect of one submission on the collections.\<close>

lemma applyRoute_applications:
  "applications (snd (applyRoute drv e r s)) = applications s
   \<or> (\<exists>u jid f. s_auth r = Some u \<and> s_jobId r = Some jid
        \<and> find (\<lambda>a. app_job a = castId drv jid \<and> app_user a = uid u) (applications s) = None
        \<and> findById (castId drv jid) (jobs s) \<noteq> None
        \<and> applications (snd (applyRoute drv e r s))
            = applications s @ [newApplication drv e u jid f (orElse (s_coverLetter r) [])])"
  by (auto simp add: apply_defs Let_def split: option.splits upload_outcome.splits)

lemma applyRoute_job_ids:
  "map job_id (jobs (snd (applyRoute drv e r s))) = map job_id (jobs s)"
  by (auto simp add: apply_defs Let_def job_ids_incApplicationCount split: option.splits upload_outcome.splits)

lemma applyRoute_uniquePairs:
  assumes "uniquePairs s" shows "uniquePairs (snd (applyRoute drv e r s))"
proof -
  consider (same) "applications (snd (applyRoute drv e r s)) = applications s"
    | (new) u jid f where
        "find (\<lambda>a. app_job a = castId drv jid \<and> app_user a = uid u) (applications s) = None"
        "applications (snd (applyRoute drv e r s))
           = applications s @ [newApplication drv e u jid f (orElse (s_coverLetter r) [])]"
    using applyRoute_applications [of drv e r s] by blast
  then show ?thesis
  proof cases
    case same
    with assms show ?thesis by (simp add: uniquePairs_def)
  next
    case new
    from new(1) have "(castId drv jid, uid u) \<notin> (\<lambda>a. (app_job a, app_user a)) ` set (applications s)"
      by (auto simp add: find_None_iff)
    with assms new(2) show ?thesis
      by (simp add: uniquePairs_def newApplication_def)
  qed
qed

text \<open>The cut handler is the handler.\<close>

lemma applyHandler_split:
  "applyHandler drv e u file r s =
     (case applyCheck drv e u file r s of Inl x \<Rightarrow> (x, s) | Inr a \<Rightarrow> applyStore e a s)"
  by (simp add: applyHandler_def applyCheck_def applyStore_def newApplication_def Let_def
        split: option.splits)

lemma applyRoute_split:
  "applyRoute drv e r s =
     (case beginApply drv e r s of (Inl x, s') \<Rightarrow> (x, s') | (Inr a, s') \<Rightarrow> applyStore e a s')"
  by (simp add: applyRoute_def beginApply_def applyHandler_split protect_def roleAuthorization_def
        split: option.splits upload_outcome.splits sum.splits)

lemma step_in_turn:
  assumes "pending v = []"
  shows "step drv (step drv v (Begin i e r)) (Finish i)
     = v\<lparr>store := snd (applyRoute drv e r (store v)),
         answers := answers v @ [(i, fst (applyRoute drv e r (store v)))]\<rparr>"
proof (cases "beginApply drv e r (store v)")
  case (Pair c s')
  show ?thesis
  proof (cases c)
    case (Inl x)
    with Pair assms show ?thesis by (simp add: applyRoute_split)
  next
    case (Inr a)
    with Pair assms show ?thesis by (simp add: applyRoute_split)
  qed
qed

lemma run_Cons: "run drv (ev # evs) v = run drv evs (step drv v ev)"
  by (simp add: run_def)

lemma run_in_turn_Cons:
  "pending v = [] \<Longrightarrow>
     run drv (inTurn n (x # xs)) v
       = run drv (inTurn (Suc n) xs)
           (v\<lparr>store := snd (applyRoute drv (fst x) (snd x) (store v)),
              answers := answers v @ [(n, fst (applyRoute drv (fst x) (snd x) (store v)))]\<rparr>)"
  by (simp only: inTurn.simps run_Cons step_in_turn)

lemma in_turn_uniquePairs:
  "pending v = [] \<Longrightarrow> uniquePairs (store v) \<Longrightarrow> uniquePairs (store (run drv (inTurn n xs) v))"
proof (induction xs arbitrary: v n)
  case Nil
  then show ?case by (simp add: run_def)
next
  case (Cons x xs)
  show ?case
    unfolding run_in_turn_Cons [OF Cons.prems(1)]
    by (rule Cons.IH) (simp_all add: Cons.prems applyRoute_uniquePairs)
qed

lemma in_turn_applications:
  "pending v = [] \<Longrightarrow>
     \<exists>ys. applications (store (run drv (inTurn n xs) v)) = applications (store v) @ ys"
proof (induction xs arbitrary: v n)
  case Nil
  then show ?case by (simp add: run_def)
next
  case (Cons x xs)
  let ?v = "v\<lparr>store := snd (applyRoute drv (fst x) (snd x) (store v)),
              answers := answers v @ [(n, fst (applyRoute drv (fst x) (snd x) (store v)))]\<rparr>"
  have "pending ?v = []" using Cons.prems by simp
  from Cons.IH [OF this, of "Suc n"] obtain ys where
    "applications (store (run drv (inTurn (Suc n) xs) ?v)) = applications (store ?v) @ ys"
    by blast
  with applyRoute_applications [of drv "fst x" "snd x" "store v"] show ?case
    unfolding run_in_turn_Cons [OF Cons.prems(1)] by auto
qed

lemma in_turn_job_ids:
  "pending v = [] \<Longrightarrow>
     map job_id (jobs (store (run drv (inTurn n xs) v))) = map job_id (jobs (store v))"
proof (induction xs arbitrary: v n)
  case Nil
  then show ?case by (simp add: run_def)
next
  case (Cons x xs)
  let ?v = "v\<lparr>store := snd (applyRoute drv (fst x) (snd x) (store v)),
              answers := answers v @ [(n, fst (applyRoute drv (fst x) (snd x) (store v)))]\<rparr>"
  have "pending ?v = []" using Cons.prems by simp
  from Cons.IH [OF this, of "Suc n"] show ?case
    unfolding run_in_turn_Cons [OF Cons.prems(1)] by (simp add: applyRoute_job_ids)
qed

lemma beginApply_duplicate:
  assumes "s_auth r = Some u" "s_jobId r = Some jid"
    "\<exists>a\<in>set (applications s). app_job a = castId drv jid \<and> app_user a = uid u"
  shows "\<exists>x. fst (beginApply drv e r s) = Inl x"
  using assms
  by (auto simp add: beginApply_def applyCheck_def Let_def find_None_iff
        split: option.splits upload_outcome.splits)

lemma applyRoute_no_file:
  assumes "s_auth r = Some u" "urole u = ''jobSeeker''" "s_upload r = Uploaded None"
  shows "applyRoute drv e r s = (failure 400 ''Resume file is required'', s)"
  using assms by (simp add: apply_defs Let_def)

lemma applyRoute_upload_error:
  assumes "s_auth r = Some u" "urole u = ''jobSeeker''" "s_upload r = UploadError m"
  shows "applyRoute drv e r s = (failure 400 m, s)"
  using assms by (simp add: apply_defs Let_def)

lemma applyRoute_duplicate_no_record:
  assumes "s_auth r = Some u" "s_jobId r = Some jid"
    "\<exists>a\<in>set (applications s). app_job a = castId drv jid \<and> app_user a = uid u"
  shows "statusCode (fst (applyRoute drv e r s)) \<noteq> 201"
    and "applications (snd (applyRoute drv e r s)) = applications s"
  using assms
  by (auto simp add: apply_defs response_defs Let_def find_None_iff split: option.splits upload_outcome.splits)

lemma applyRoute_duplicate_conflict:
  assumes "s_auth r = Some u" "urole u = ''jobSeeker''" "s_upload r = Uploaded (Some f)"
    "s_jobId r = Some jid" "jid \<noteq> []" "isValid drv jid"
    "findById (castId drv jid) (jobs s) \<noteq> None"
    "\<exists>a\<in>set (applications s). app_job a = castId drv jid \<and> app_user a = uid u"
    "fault e = None"
  shows "fst (applyRoute drv e r s) = failure 400 ''You have already applied for this job''"
  using assms
  by (auto simp add: apply_defs response_defs Let_def find_None_iff split: option.splits)

lemma applyRoute_created:
  assumes "statusCode (fst (applyRoute drv e r s)) = 201"
  shows "\<exists>u jid. s_auth r = Some u \<and> urole u = ''jobSeeker'' \<and> s_jobId r = Some jid \<and> jid \<noteq> []
      \<and> isValid drv jid \<and> findById (castId drv jid) (jobs s) \<noteq> None
      \<and> (\<exists>a\<in>set (applications (snd (applyRoute drv e r s))).
            app_job a = castId drv jid \<and> app_user a = uid u)"
  using assms
  by (auto simp add: apply_defs response_defs Let_def newApplication_def
      split: option.splits upload_outcome.splits if_splits)

lemmas eval_defs = apply_defs example_defs response_defs hex_defs findById_def
  newApplication_def applicationSchema_def validStatuses_def orElse_def uniquePairs_def

lemmas run_eval = run_def idle_def beginApply_def applyCheck_def applyStore_def eval_defs Let_def

text \<open>The example submissions, evaluated.\<close>

lemma bob_applied:
  "applyRoute hexDriver quiet bobApplies dbJ
     = (ok 201 ''Application submitted successfully'' (OneApplication bobsApplication), dbB)"
  by (simp add: eval_defs dbB_def Let_def)

lemma bob_repeats:
  "store (run hexDriver (inTurn 0 [(quiet2, bobApplies)]) (idle dbB)) = dbB2"
  by (simp add: run_eval dbB_def dbB2_def)

lemma bob_twice:
  "store (run hexDriver (inTurn 0 [(quiet, bobApplies), (quiet2, bobApplies)]) (idle dbJ)) = dbB2"
  by (simp add: run_eval dbB_def dbB2_def)

lemma dbB2_facts:
  "uniquePairs dbJ" "uniquePairs dbB2" "length (applications dbB2) = 1"
  "\<exists>a\<in>set (applications dbB). app_job a = castId hexDriver ''64b7f0c2a1d3e4f5a6b7c8d9'' \<and> app_user a = uid bob"
  by (simp_all add: eval_defs dbB_def dbB2_def)

text \<open>
  A submission that passes every check stores one pending application and increments
  the counter of the first job with the identifier, and of no other job.
\<close>

lemma incApplicationCount_first:
  "findById i js = Some j \<Longrightarrow>
     \<exists>pre post. js = pre @ j # post \<and> (\<forall>x\<in>set pre. job_id x \<noteq> i) \<and> job_id j = i
       \<and> incApplicationCount i js = pre @ j\<lparr>applicationCount := applicationCount j + 1\<rparr> # post"
proof (induction js)
  case Nil
  then show ?case by (simp add: findById_def)
next
  case (Cons x xs)
  show ?case
  proof (cases "job_id x = i")
    case True
    with Cons.prems have "x = j" by (simp add: findById_def)
    with True show ?thesis by (intro exI [of _ "[]"] exI [of _ xs]) simp
  next
    case False
    with Cons.prems have "findById i xs = Some j" by (simp add: findById_def)
    from Cons.IH [OF this] obtain pre post where
      "xs = pre @ j # post" "\<forall>x\<in>set pre. job_id x \<noteq> i" "job_id j = i"
      "incApplicationCount i xs = pre @ j\<lparr>applicationCount := applicationCount j + 1\<rparr> # post"
      by blast
    with False show ?thesis
      by (intro exI [of _ "x # pre"] exI [of _ post]) simp
  qed
qed

lemma applyRoute_success:
  assumes "s_auth r = Some u" "urole u = ''jobSeeker''" "s_upload r = Uploaded (Some f)"
    "f \<noteq> []" "s_jobId r = Some jid" "jid \<noteq> []" "isValid drv jid"
    "findById (castId drv jid) (jobs s) = Some j"
    "find (\<lambda>a. app_job a = castId drv jid \<and> app_user a = uid u) (applications s) = None"
    "s_coverLetter r = Some c" "c \<noteq> []" "fault e = None"
  shows "statusCode (fst (applyRoute drv e r s)) = 201"
    and "snd (applyRoute drv e r s) =
           s\<lparr>uploads := f # uploads s,
             applications := applications s @ [newApplication drv e u jid f c],
             jobs := incApplicationCount (castId drv jid) (jobs s)\<rparr>"
  using assms find_append_last [of "\<lambda>x. app_id x = newId e" "newApplication drv e u jid f c" "applications s"]
  by (auto simp add: apply_defs newApplication_def applicationSchema_def validStatuses_def orElse_def
        response_defs Let_def split: option.splits)

text \<open>Trimming ignores white space added at either end.\<close>

lemma dropWhile_all: "list_all P xs \<Longrightarrow> dropWhile P (xs @ ys) = dropWhile P ys"
  by (induction xs) auto

lemma dropWhile_not_all: "\<not> list_all P xs \<Longrightarrow> dropWhile P (xs @ ys) = dropWhile P xs @ ys"
  by (induction xs) auto

lemma trim_padding:
  assumes "list_all isWhiteSpace ws1" "list_all isWhiteSpace ws2"
  shows "trim (ws1 @ p @ ws2) = trim p"
proof -
  have front: "dropWhile isWhiteSpace (ws1 @ p @ ws2) = dropWhile isWhiteSpace (p @ ws2)"
    using assms(1) by (rule dropWhile_all)
  show ?thesis
  proof (cases "list_all isWhiteSpace p")
    case True
    have "dropWhile isWhiteSpace (p @ ws2) = dropWhile isWhiteSpace ws2"
      using True by (rule dropWhile_all)
    also have "\<dots> = []"
      using dropWhile_all [OF assms(2), of "[]"] by simp
    finally have l: "dropWhile isWhiteSpace (ws1 @ p @ ws2) = []"
      using front by simp
    have r: "dropWhile isWhiteSpace p = []"
      using dropWhile_all [OF True, of "[]"] by simp
    show ?thesis unfolding trim_def l r ..
  next
    case False
    have m: "dropWhile isWhiteSpace (p @ ws2) = dropWhile isWhiteSpace p @ ws2"
      using False by (rule dropWhile_not_all)
    have "list_all isWhiteSpace (rev ws2)"
      using assms(2) by (simp add: list_all_iff)
    then have b: "dropWhile isWhiteSpace (rev ws2 @ rev (dropWhile isWhiteSpace p))
        = dropWhile isWhiteSpace (rev (dropWhile isWhiteSpace p))"
      by (rule dropWhile_all)
    show ?thesis unfolding trim_def front m rev_append b ..
  qed
qed

lemma orElse_Some_Nil: "orElse (Some x) [] = x"
  by (simp add: orElse_def)

lemma signupHandler_created:
  "statusCode (fst (signupHandler cr e b s)) = 201 \<Longrightarrow>
     \<exists>x. users (snd (signupHandler cr e b s)) = users s @ [x]
        \<and> password x = bcrypt_hash cr (trim (orElse (b_password b) [])) (salt e)"
  by (auto simp add: signupHandler_def Let_def response_defs split: option.splits if_splits)

lemmas auth_eval = loginRoute_def loginEmail_def loginPassword_def findUser_def falsy_def
  orElse_def trim_def isWhiteSpace_def toLowerCase_def lowerChar_def rejects_def
  signupRoute_def signupHandler_def validateSignup_def emailRegex_def emailChar_def

text \<open>What a signup stores and what a login compares.\<close>

lemma trim_all_white:
  assumes "list_all isWhiteSpace q" shows "trim q = []"
proof -
  have d: "dropWhile isWhiteSpace q = []"
    using assms by (induction q) auto
  show ?thesis unfolding trim_def d by simp
qed

lemma validateSignup_length:
  assumes "\<not> falsy (b_name b)" "b_email b = Some a" "emailRegex a"
  shows "validateSignup (b\<lparr>b_password := Some q\<rparr>) = None \<longleftrightarrow> 6 \<le> length q"
  using assms by (auto simp add: validateSignup_def falsy_def orElse_def emailRegex_def)

lemma validateSignup_short:
  assumes "\<not> falsy (b_name b)" "b_email b = Some a" "emailRegex a" "q \<noteq> []" "length q < 6"
  shows "validateSignup (b\<lparr>b_password := Some q\<rparr>)
           = Some (failure 400 ''Password must be at least 6 characters'')"
  using assms by (auto simp add: validateSignup_def falsy_def orElse_def emailRegex_def)

lemma signupRoute_created:
  assumes "statusCode (fst (signupRoute cr e b s)) = 201"
  shows "validateSignup b = None" and "signupRoute cr e b s = signupHandler cr e b s"
proof -
  show v: "validateSignup b = None"
  proof (cases "validateSignup b")
    case (Some r)
    then have "statusCode r = 400"
      by (auto simp add: validateSignup_def response_defs split: if_splits)
    with assms Some show ?thesis by (simp add: signupRoute_def)
  qed simp
  then show "signupRoute cr e b s = signupHandler cr e b s"
    by (simp add: signupRoute_def)
qed

lemma validateSignup_None_length:
  "validateSignup b = None \<Longrightarrow> b_password b = Some p \<Longrightarrow> 6 \<le> length p"
  by (auto simp add: validateSignup_def falsy_def orElse_def split: if_splits)

lemma loginRoute_ok:
  assumes "statusCode (fst (loginRoute cr e lb s)) = 200"
  shows "\<exists>p u. l_password lb = Some p \<and> trim p \<noteq> [] \<and> findUser (loginEmail lb) s = Some u
           \<and> bcrypt_compare cr (trim p) (password u)"
  using assms
  by (cases "l_password lb")
     (auto simp add: loginRoute_def loginPassword_def falsy_def orElse_def response_defs Let_def
        split: option.splits if_splits)

lemma loginRoute_compare:
  assumes "fault e = None" "\<not> falsy (loginEmail lb)" "l_password lb = Some p" "trim p \<noteq> []"
    "findUser (loginEmail lb) s = Some u" "password u \<noteq> []"
  shows "statusCode (fst (loginRoute cr e lb s)) = 200 \<longleftrightarrow> bcrypt_compare cr (trim p) (password u)"
  using assms
  by (auto simp add: loginRoute_def loginPassword_def falsy_def orElse_def response_defs
        rejects_def Let_def)

section \<open>Job routes: identifier validation and the route order\<close>

text \<open>
  C6. The spec has \<^verbatim>\<open>GET /api/jobs/:id\<close> answer 400 (invalid id) for a malformed
  identifier. The handler written for it never reaches that answer: for every
  authenticated request, whatever the identifier, the reference to the unbound
  \<^verbatim>\<open>mongoose\<close> throws and the \<^verbatim>\<open>catch\<close> block answers 500 with the message
  "Server error while fetching job", leaving the database as it was.
\<close>

theorem getJob_always_server_error:
  "getJob e (Some u) i s = (serverError ''Server error while fetching job'', s)"
  by (simp add: getJob_def getJobIn_def jobRoutes_mongoose_def protect_def)

text \<open>
  With \<^verbatim>\<open>mongoose\<close> bound, the same handler answers a malformed identifier with 400
  before any lookup.
\<close>

lemma getJobIn_bound_malformed:
  "\<not> isValid drv i \<Longrightarrow>
     getJobIn (Some drv) e (Some u) i s = (failure 400 ''Invalid job ID format'', s)"
  by (simp add: getJobIn_def protect_def)

text \<open>
  C7. The spec has \<^verbatim>\<open>GET /api/jobs/my\<close> answer 200 with the caller's postings. In the
  router the route \<^verbatim>\<open>/:id\<close> is registered before \<^verbatim>\<open>/my\<close>, so the path \<^verbatim>\<open>/my\<close> is served by
  the handler of \<^verbatim>\<open>/:id\<close> with the identifier \<^verbatim>\<open>my\<close>: an authenticated request is answered
  500, and no method and path are ever dispatched to the handler of \<^verbatim>\<open>/my\<close>.
\<close>

theorem my_route_shadowed:
  "jobRouter e \<lparr>j_method = GET, j_path = [''my''], j_auth = Some u, j_body = b\<rparr> s
     = (serverError ''Server error while fetching job'', s)
   \<and> (\<forall>m p. dispatch m p \<noteq> Some MyJobs)"
  using dispatch_never_MyJobs
  by (simp add: jobRouter_def dispatch_def jobRoutes_def getJob_def getJobIn_def
        jobRoutes_mongoose_def protect_def)

text \<open>
  Even with \<^verbatim>\<open>mongoose\<close> bound, \<^verbatim>\<open>my\<close> is no ObjectId, and the handler of \<^verbatim>\<open>/:id\<close> answers 400.
\<close>

lemma my_is_malformed:
  "getJobIn (Some hexDriver) e (Some u) ''my'' s = (failure 400 ''Invalid job ID format'', s)"
  by (simp add: getJobIn_def protect_def hexDriver_def)

section \<open>Applications of one job\<close>

text \<open>
  C3, as the spec states it, fails: the job \<open>jobJ\<close> exists and was posted by \<open>acme\<close>, and
  the company \<open>globex\<close> asking for its applications is answered 404, not 403.
\<close>

theorem listForJob_foreign_job_is_404:
  "findById (castId hexDriver ''64b7f0c2a1d3e4f5a6b7c8d9'') (jobs dbJ) = Some jobJ
   \<and> postedBy jobJ \<noteq> uid globex
   \<and> fst (jobApplicationsRoute hexDriver quiet (Some globex) ''64b7f0c2a1d3e4f5a6b7c8d9'' dbJ)
       = failure 404 ''Job not found or not authorized''
   \<and> statusCode (fst (jobApplicationsRoute hexDriver quiet (Some globex)
        ''64b7f0c2a1d3e4f5a6b7c8d9'' dbJ)) \<noteq> 403"
  by (simp add: jobApplicationsRoute_def protect_def roleAuthorization_def findById_def
        rejects_def example_defs response_defs hex_defs)

text \<open>
  C3, amended. A company asking for the applications of a job is never answered 403.
  When the identifier is well formed and the database answers, a job that the caller
  did not post and a job that does not exist get the same answer: 404 with the message
  "Job not found or not authorized", and the database is unchanged.
\<close>

theorem listForJob_not_owned:
  "urole u = ''company'' \<Longrightarrow>
   statusCode (fst (jobApplicationsRoute drv e (Some u) jobId s)) \<noteq> 403
   \<and> (isValid drv jobId \<and> fault e = None
        \<and> \<not> (\<exists>j\<in>set (jobs s). job_id j = castId drv jobId \<and> postedBy j = uid u)
      \<longrightarrow> jobApplicationsRoute drv e (Some u) jobId s
            = (failure 404 ''Job not found or not authorized'', s))"
  by (auto simp add: jobApplicationsRoute_def protect_def roleAuthorization_def rejects_def
        response_defs Let_def find_None_iff split: option.splits dest: find_SomeD)

theorem listForJob_not_owned_witness:
  "urole globex = ''company'' \<and> isValid hexDriver ''64b7f0c2a1d3e4f5a6b7c8d9''
   \<and> fault quiet = None
   \<and> \<not> (\<exists>j\<in>set (jobs dbJ). job_id j = castId hexDriver ''64b7f0c2a1d3e4f5a6b7c8d9''
          \<and> postedBy j = uid globex)
   \<and> jobApplicationsRoute hexDriver quiet (Some globex) ''64b7f0c2a1d3e4f5a6b7c8d9'' dbJ
       = (failure 404 ''Job not found or not authorized'', dbJ)"
  using listForJob_not_owned [of globex hexDriver quiet "''64b7f0c2a1d3e4f5a6b7c8d9''" dbJ]
  by (simp add: example_defs hex_defs)

section \<open>Submitting an application\<close>

text \<open>
  C1, as the spec states it, fails. The job seeker sends two submissions for the same
  posting and both pass the duplicate check before either is saved: both are answered
  201 and the database, which had at most one application per pair, holds two for the
  one pair.
\<close>

theorem overlapping_submits_both_stored:
  "uniquePairs dbJ
   \<and> map fst (answers (run hexDriver overlapping (idle dbJ))) = [0, 1]
   \<and> map (statusCode \<circ> snd) (answers (run hexDriver overlapping (idle dbJ))) = [201, 201]
   \<and> map app_job (applications (store (run hexDriver overlapping (idle dbJ))))
       = [''64b7f0c2a1d3e4f5a6b7c8d9'', ''64b7f0c2a1d3e4f5a6b7c8d9'']
   \<and> map app_user (applications (store (run hexDriver overlapping (idle dbJ))))
       = [''bbbbbbbbbbbbbbbbbbbbbbbb'', ''bbbbbbbbbbbbbbbbbbbbbbbb'']
   \<and> \<not> uniquePairs (store (run hexDriver overlapping (idle dbJ)))"
  by (simp add: run_def idle_def beginApply_def applyCheck_def applyStore_def eval_defs Let_def)

text \<open>
  C1, amended. When the submissions are handled in turn, each to its answer before the
  next begins, a database with at most one application per (job, user) pair keeps that
  property. A submission by an applicant who already has an application for the job
  ends at its checks, is never answered 201 and stores no record. After a submission
  has succeeded and any further submissions were handled in turn, the applications
  stored before are all still there, unchanged and in their order, and a submission by
  the same applicant for the same job identifier stores nothing and is answered 400:
  with "You have already applied for this job" when it carries a file and the
  database answers, with "Resume file is required" when it carries none, and with the
  upload's own message when the upload fails.
\<close>

theorem in_turn_one_application_per_pair:
  "(uniquePairs s \<longrightarrow> uniquePairs (store (run drv (inTurn n xs) (idle s))))
   \<and> (s_auth r = Some u \<and> s_jobId r = Some jid
        \<and> (\<exists>a\<in>set (applications t). app_job a = castId drv jid \<and> app_user a = uid u)
      \<longrightarrow> (\<exists>x. fst (beginApply drv e r t) = Inl x)
          \<and> statusCode (fst (applyRoute drv e r t)) \<noteq> 201
          \<and> applications (snd (applyRoute drv e r t)) = applications t)
   \<and> (statusCode (fst (applyRoute drv e1 r1 s)) = 201
        \<and> s1 = snd (applyRoute drv e1 r1 s)
        \<and> s2 = store (run drv (inTurn n xs) (idle s1))
        \<and> s_auth r2 = s_auth r1 \<and> s_jobId r2 = s_jobId r1
      \<longrightarrow> (\<exists>ys. applications s2 = applications s1 @ ys)
          \<and> applications (snd (applyRoute drv e2 r2 s2)) = applications s2
          \<and> (s_upload r2 = Uploaded (Some f) \<and> fault e2 = None
              \<longrightarrow> fst (applyRoute drv e2 r2 s2) = failure 400 ''You have already applied for this job'')
          \<and> (s_upload r2 = Uploaded None
              \<longrightarrow> fst (applyRoute drv e2 r2 s2) = failure 400 ''Resume file is required'')
          \<and> (s_upload r2 = UploadError m
              \<longrightarrow> fst (applyRoute drv e2 r2 s2) = failure 400 m))"
proof (intro conjI impI)
  assume "uniquePairs s"
  then show "uniquePairs (store (run drv (inTurn n xs) (idle s)))"
    by (intro in_turn_uniquePairs) (simp_all add: idle_def)
next
  assume a: "s_auth r = Some u \<and> s_jobId r = Some jid
        \<and> (\<exists>a\<in>set (applications t). app_job a = castId drv jid \<and> app_user a = uid u)"
  then show "\<exists>x. fst (beginApply drv e r t) = Inl x"
    using beginApply_duplicate [of r u jid t drv e] by blast
  from a show "statusCode (fst (applyRoute drv e r t)) \<noteq> 201"
    using applyRoute_duplicate_no_record(1) [of r u jid t drv e] by blast
  from a show "applications (snd (applyRoute drv e r t)) = applications t"
    using applyRoute_duplicate_no_record(2) [of r u jid t drv e] by blast
next
  assume a: "statusCode (fst (applyRoute drv e1 r1 s)) = 201
        \<and> s1 = snd (applyRoute drv e1 r1 s)
        \<and> s2 = store (run drv (inTurn n xs) (idle s1))
        \<and> s_auth r2 = s_auth r1 \<and> s_jobId r2 = s_jobId r1"
  then obtain u jid where c: "s_auth r1 = Some u" "urole u = ''jobSeeker''" "s_jobId r1 = Some jid"
      "jid \<noteq> []" "isValid drv jid" "findById (castId drv jid) (jobs s) \<noteq> None"
      "\<exists>a\<in>set (applications s1). app_job a = castId drv jid \<and> app_user a = uid u"
    using applyRoute_created [of drv e1 r1 s] by blast
  have idle: "pending (idle s1) = []" "store (idle s1) = s1"
    by (simp_all add: idle_def)
  obtain ys where ys: "applications s2 = applications s1 @ ys"
    using in_turn_applications [OF idle(1), of drv n xs] a idle(2) by auto
  have ids: "map job_id (jobs s2) = map job_id (jobs s)"
    using in_turn_job_ids [OF idle(1), of drv n xs] a idle(2) by (simp add: applyRoute_job_ids)
  have present: "findById (castId drv jid) (jobs s2) \<noteq> None"
  proof -
    have "job_id ` set (jobs s2) = job_id ` set (jobs s)"
      using ids by (metis set_map)
    moreover from c(6) have "castId drv jid \<in> job_id ` set (jobs s)"
      by (simp only: findById_iff)
    ultimately show ?thesis by (simp only: findById_iff)
  qed
  have dup: "\<exists>a\<in>set (applications s2). app_job a = castId drv jid \<and> app_user a = uid u"
    using c(7) ys by auto
  from a c have r2: "s_auth r2 = Some u" "s_jobId r2 = Some jid"
    by simp_all
  show "\<exists>ys. applications s2 = applications s1 @ ys"
    using ys by blast
  show "applications (snd (applyRoute drv e2 r2 s2)) = applications s2"
    using applyRoute_duplicate_no_record(2) [OF r2(1) r2(2) dup] .
  {
    assume "s_upload r2 = Uploaded (Some f) \<and> fault e2 = None"
    then show "fst (applyRoute drv e2 r2 s2) = failure 400 ''You have already applied for this job''"
      using applyRoute_duplicate_conflict [OF r2(1) c(2) _ r2(2) c(4) c(5) present dup] by blast
  next
    assume "s_upload r2 = Uploaded None"
    then show "fst (applyRoute drv e2 r2 s2) = failure 400 ''Resume file is required''"
      using applyRoute_no_file [OF r2(1) c(2)] by simp
  next
    assume "s_upload r2 = UploadError m"
    then show "fst (applyRoute drv e2 r2 s2) = failure 400 m"
      using applyRoute_upload_error [OF r2(1) c(2)] by simp
  }
qed

theorem in_turn_one_application_per_pair_witness:
  "uniquePairs dbJ
   \<and> uniquePairs (store (run hexDriver (inTurn 0 [(quiet, bobApplies), (quiet2, bobApplies)]) (idle dbJ)))
   \<and> length (applications (store (run hexDriver (inTurn 0 [(quiet, bobApplies), (quiet2, bobApplies)]) (idle dbJ)))) = 1
   \<and> statusCode (fst (applyRoute hexDriver quiet bobApplies dbJ)) = 201
   \<and> dbB = snd (applyRoute hexDriver quiet bobApplies dbJ)
   \<and> dbB2 = store (run hexDriver (inTurn 0 [(quiet2, bobApplies)]) (idle dbB))
   \<and> (\<exists>a\<in>set (applications dbB).
         app_job a = castId hexDriver ''64b7f0c2a1d3e4f5a6b7c8d9'' \<and> app_user a = uid bob)
   \<and> fault quiet2 = None
   \<and> fst (applyRoute hexDriver quiet2 bobApplies dbB2)
       = failure 400 ''You have already applied for this job''
   \<and> fst (applyRoute hexDriver quiet2 (bobApplies\<lparr>s_upload := Uploaded None\<rparr>) dbB2)
       = failure 400 ''Resume file is required''
   \<and> fst (applyRoute hexDriver quiet2 (bobApplies\<lparr>s_upload := UploadError ''File too large''\<rparr>) dbB2)
       = failure 400 ''File too large''
   \<and> (\<exists>x. fst (beginApply hexDriver quiet2 bobApplies dbB) = Inl x)
   \<and> applications (snd (applyRoute hexDriver quiet2 bobApplies dbB2)) = applications dbB"
proof -
  have unique: "uniquePairs dbJ"
    by (rule dbB2_facts(1))
  have first: "statusCode (fst (applyRoute hexDriver quiet bobApplies dbJ)) = 201"
    by (simp add: bob_applied ok_def)
  have stored: "dbB = snd (applyRoute hexDriver quiet bobApplies dbJ)"
    by (simp add: bob_applied)
  have later: "dbB2 = store (run hexDriver (inTurn 0 [(quiet2, bobApplies)]) (idle dbB))"
    by (simp only: bob_repeats)
  have present: "\<exists>a\<in>set (applications dbB).
         app_job a = castId hexDriver ''64b7f0c2a1d3e4f5a6b7c8d9'' \<and> app_user a = uid bob"
    by (rule dbB2_facts(4))
  have quiet2: "fault quiet2 = None"
    by (simp add: quiet2_def)
  have len: "length (applications (store (run hexDriver
      (inTurn 0 [(quiet, bobApplies), (quiet2, bobApplies)]) (idle dbJ)))) = 1"
    by (simp only: bob_twice dbB2_facts(3))
  have twice: "uniquePairs (store (run hexDriver (inTurn 0 [(quiet, bobApplies), (quiet2, bobApplies)]) (idle dbJ)))"
    using in_turn_one_application_per_pair [where s = dbJ and drv = hexDriver and n = 0
        and xs = "[(quiet, bobApplies), (quiet2, bobApplies)]"] unique
    by blast
  have again: "fst (applyRoute hexDriver quiet2 bobApplies dbB2)
       = failure 400 ''You have already applied for this job''
     \<and> applications (snd (applyRoute hexDriver quiet2 bobApplies dbB2)) = applications dbB2"
    using in_turn_one_application_per_pair [where s = dbJ and drv = hexDriver and n = 0
        and xs = "[(quiet2, bobApplies)]" and ?e1.0 = quiet and ?r1.0 = bobApplies
        and ?s1.0 = dbB and ?s2.0 = dbB2 and ?r2.0 = bobApplies and ?e2.0 = quiet2
        and f = "''resume-1.pdf''"] first stored later quiet2
    by (simp add: bobApplies_def)
  have conflict: "fst (applyRoute hexDriver quiet2 bobApplies dbB2)
       = failure 400 ''You have already applied for this job''"
    using again by (rule conjunct1)
  have kept: "applications (snd (applyRoute hexDriver quiet2 bobApplies dbB2)) = applications dbB"
    using again by (simp add: dbB2_def)
  have no_file: "fst (applyRoute hexDriver quiet2 (bobApplies\<lparr>s_upload := Uploaded None\<rparr>) dbB2)
       = failure 400 ''Resume file is required''"
    using in_turn_one_application_per_pair [where s = dbJ and drv = hexDriver and n = 0
        and xs = "[(quiet2, bobApplies)]" and ?e1.0 = quiet and ?r1.0 = bobApplies
        and ?s1.0 = dbB and ?s2.0 = dbB2 and ?r2.0 = "bobApplies\<lparr>s_upload := Uploaded None\<rparr>"
        and ?e2.0 = quiet2] first stored later
    by simp
  have too_large: "fst (applyRoute hexDriver quiet2 (bobApplies\<lparr>s_upload := UploadError ''File too large''\<rparr>) dbB2)
       = failure 400 ''File too large''"
    using in_turn_one_application_per_pair [where s = dbJ and drv = hexDriver and n = 0
        and xs = "[(quiet2, bobApplies)]" and ?e1.0 = quiet and ?r1.0 = bobApplies
        and ?s1.0 = dbB and ?s2.0 = dbB2
        and ?r2.0 = "bobApplies\<lparr>s_upload := UploadError ''File too large''\<rparr>"
        and ?e2.0 = quiet2 and m = "''File too large''"] first stored later
    by simp
  have checked: "\<exists>x. fst (beginApply hexDriver quiet2 bobApplies dbB) = Inl x"
    using in_turn_one_application_per_pair [where drv = hexDriver and r = bobApplies and u = bob
        and jid = "''64b7f0c2a1d3e4f5a6b7c8d9''" and t = dbB and e = quiet2] present
    by (simp add: bobApplies_def)
  show ?thesis
    by (intro conjI) (fact unique twice len first stored later present quiet2 conflict no_file
        too_large checked kept)+
qed

text \<open>
  C2. The spec has every submission with an existing job, no prior application and an
  attached file store one pending application and increment the job's counter. The
  submission below satisfies the three preconditions and carries no cover letter: the
  handler answers 500, stores no application and leaves the jobs as they were (only
  the uploaded file remains).
\<close>

theorem submit_absent_letter_creates_nothing:
  "findById (castId hexDriver ''64b7f0c2a1d3e4f5a6b7c8d9'') (jobs dbJ) = Some jobJ
   \<and> applications dbJ = []
   \<and> s_upload (bobApplies\<lparr>s_coverLetter := None\<rparr>) = Uploaded (Some ''resume-1.pdf'')
   \<and> applyRoute hexDriver quiet (bobApplies\<lparr>s_coverLetter := None\<rparr>) dbJ
       = (serverError ''Server error during application submission'',
          dbJ\<lparr>uploads := [''resume-1.pdf'']\<rparr>)"
  by (simp add: eval_defs Let_def)

text \<open>
  C9. The spec has a submission with an empty cover letter succeed. In the code a
  submission whose cover letter is absent or empty never answers 201 and stores no
  application, whatever else it carries: the handler substitutes the empty string, and
  the schema's \<open>required\<close> validator rejects it when the document is saved.
\<close>

theorem submit_empty_letter_fails:
  "falsy (s_coverLetter r) \<Longrightarrow>
     statusCode (fst (applyRoute drv e r s)) \<noteq> 201
     \<and> applications (snd (applyRoute drv e r s)) = applications s
     \<and> jobs (snd (applyRoute drv e r s)) = jobs s"
  by (auto simp add: apply_defs applicationSchema_def newApplication_def orElse_def falsy_def
        response_defs Let_def split: option.splits upload_outcome.splits)

theorem submit_empty_letter_fails_witness:
  "falsy (s_coverLetter (bobApplies\<lparr>s_coverLetter := Some []\<rparr>))
   \<and> findById (castId hexDriver ''64b7f0c2a1d3e4f5a6b7c8d9'') (jobs dbJ) = Some jobJ
   \<and> applications dbJ = []
   \<and> fst (applyRoute hexDriver quiet (bobApplies\<lparr>s_coverLetter := Some []\<rparr>) dbJ)
       = serverError ''Server error during application submission''
   \<and> applications (snd (applyRoute hexDriver quiet (bobApplies\<lparr>s_coverLetter := Some []\<rparr>) dbJ)) = []"
  using submit_empty_letter_fails [of "bobApplies\<lparr>s_coverLetter := Some []\<rparr>" hexDriver quiet dbJ]
  by (simp add: eval_defs Let_def falsy_def)

text \<open>
  C5, as the spec states it, fails: from a database whose counters are consistent, the
  submission in which the update of the counter rejects is answered 500 and leaves an
  application that the job's counter does not reflect.
\<close>

theorem increment_failure_orphans_application:
  "countConsistent dbJ
   \<and> fst (applyRoute hexDriver refusingUpdate bobApplies dbJ)
       = serverError ''Server error during application submission''
   \<and> \<not> countConsistent (snd (applyRoute hexDriver refusingUpdate bobApplies dbJ))"
  by (simp add: eval_defs Let_def countConsistent_def)

text \<open>
  C5, amended. If a submission succeeds when no call rejects, then the same submission
  in which the update of the job's counter rejects is answered 500 with the message
  "Server error during application submission"; the application is stored all the
  same (the applications are those of the successful run, one more than before) and
  the jobs, counters included, are unchanged. Nothing is rolled back.
\<close>

theorem increment_failure_keeps_application:
  "statusCode (fst (applyRoute drv (e\<lparr>fault := None\<rparr>) r s)) = 201 \<Longrightarrow>
     fst (applyRoute drv (e\<lparr>fault := Some Job_findByIdAndUpdate\<rparr>) r s)
       = serverError ''Server error during application submission''
     \<and> applications (snd (applyRoute drv (e\<lparr>fault := Some Job_findByIdAndUpdate\<rparr>) r s))
       = applications (snd (applyRoute drv (e\<lparr>fault := None\<rparr>) r s))
     \<and> length (applications (snd (applyRoute drv (e\<lparr>fault := None\<rparr>) r s))) = Suc (length (applications s))
     \<and> jobs (snd (applyRoute drv (e\<lparr>fault := Some Job_findByIdAndUpdate\<rparr>) r s)) = jobs s"
  by (auto simp add: apply_defs response_defs newApplication_def Let_def split: option.splits upload_outcome.splits if_splits)

theorem increment_failure_keeps_application_witness:
  "statusCode (fst (applyRoute hexDriver (quiet\<lparr>fault := None\<rparr>) bobApplies dbJ)) = 201
   \<and> fst (applyRoute hexDriver (quiet\<lparr>fault := Some Job_findByIdAndUpdate\<rparr>) bobApplies dbJ)
       = serverError ''Server error during application submission''
   \<and> length (applications (snd (applyRoute hexDriver (quiet\<lparr>fault := Some Job_findByIdAndUpdate\<rparr>) bobApplies dbJ))) = 1
   \<and> jobs (snd (applyRoute hexDriver (quiet\<lparr>fault := Some Job_findByIdAndUpdate\<rparr>) bobApplies dbJ)) = [jobJ]"
  using increment_failure_keeps_application [of hexDriver quiet bobApplies dbJ]
  by (simp add: eval_defs Let_def)

section \<open>Fetching a resume file\<close>

text \<open>
  C4, as the spec states it, fails: with no application at all, a request for a file
  name is answered 403, not 404.
\<close>

theorem resume_unreferenced_is_403:
  "applications emptyDb = []
   \<and> fst (resumeRoute quiet (Some bob) ''resume-1.pdf'' emptyDb)
       = failure 403 ''Not authorized to access this file''
   \<and> statusCode (fst (resumeRoute quiet (Some bob) ''resume-1.pdf'' emptyDb)) \<noteq> 404"
  by (simp add: resumeRoute_def protect_def rejects_def emptyDb_def example_defs response_defs Let_def)

text \<open>
  C4, amended. When the database answers, a request is answered 403 "Not authorized to
  access this file" whenever no application with that file name is accessible to the
  requester (who is neither its applicant nor the poster of its job), which includes
  the case that no application has that file name; it is answered 404 "Resume file not
  found" when an accessible application has the file name and the file is absent from
  the upload directory, and only then.
\<close>

theorem resume_errors:
  "fault e = None \<Longrightarrow>
   ((\<forall>x\<in>set (applications s). resume x = f \<longrightarrow>
        app_user x \<noteq> uid u \<and> app_job x \<notin> set (postedJobIds (uid u) s))
      \<longrightarrow> resumeRoute e (Some u) f s = (failure 403 ''Not authorized to access this file'', s))
   \<and> ((\<exists>x\<in>set (applications s). resume x = f \<and>
          (app_user x = uid u \<or> app_job x \<in> set (postedJobIds (uid u) s)))
        \<and> f \<notin> set (uploads s)
      \<longrightarrow> resumeRoute e (Some u) f s = (failure 404 ''Resume file not found'', s))
   \<and> (statusCode (fst (resumeRoute e (Some u) f s)) = 404 \<longrightarrow>
        f \<notin> set (uploads s)
        \<and> (\<exists>x\<in>set (applications s). resume x = f \<and>
              (app_user x = uid u \<or> app_job x \<in> set (postedJobIds (uid u) s))))"
  by (auto simp add: resumeRoute_def protect_def rejects_def response_defs Let_def find_None_iff
        split: option.splits if_splits dest: find_SomeD)

theorem resume_errors_witness:
  "fault quiet = None
   \<and> resume bobsApplication = ''resume-1.pdf''
   \<and> resumeRoute quiet (Some globex) ''resume-1.pdf'' dbNoFile
       = (failure 403 ''Not authorized to access this file'', dbNoFile)
   \<and> app_user bobsApplication = uid bob
   \<and> ''resume-1.pdf'' \<notin> set (uploads dbNoFile)
   \<and> resumeRoute quiet (Some bob) ''resume-1.pdf'' dbNoFile
       = (failure 404 ''Resume file not found'', dbNoFile)
   \<and> statusCode (fst (resumeRoute quiet (Some bob) ''resume-1.pdf'' dbNoFile)) = 404"
  using resume_errors [of quiet dbNoFile "''resume-1.pdf''" globex]
    resume_errors [of quiet dbNoFile "''resume-1.pdf''" bob]
  by (simp add: example_defs hex_defs newApplication_def postedJobIds_def response_defs)

section \<open>Authentication\<close>



text \<open>
  C10, as stated, fails for signup: the password \<^verbatim>\<open>abc\<close> is refused as too short, and
  the same password with two spaces before it and one after it creates the account.
\<close>

theorem padded_short_password_accepted:
  "list_all isWhiteSpace ''  '' \<and> list_all isWhiteSpace '' ''
   \<and> fst (signupRoute toyCrypto quiet (newcomer\<lparr>b_password := Some ''abc''\<rparr>) dbA)
       = failure 400 ''Password must be at least 6 characters''
   \<and> users (snd (signupRoute toyCrypto quiet (newcomer\<lparr>b_password := Some ''abc''\<rparr>) dbA)) = [alice]
   \<and> statusCode (fst (signupRoute toyCrypto quiet
        (newcomer\<lparr>b_password := Some (''  '' @ ''abc'' @ '' '')\<rparr>) dbA)) = 201
   \<and> map email (users (snd (signupRoute toyCrypto quiet
        (newcomer\<lparr>b_password := Some (''  '' @ ''abc'' @ '' '')\<rparr>) dbA))) = [''alice@x.com'', ''carol@x.com'']"
  by (simp add: auth_eval example_defs response_defs Let_def)

text \<open>
  C10, amended. White space added at either end of a password changes neither the
  result of a login nor what the signup handler does, and a signup whose unpadded
  password has at least six characters is answered the same with and without the
  padding. A signup that succeeds had a password of at least six characters as
  supplied and stores the hash of the trimmed password; a login that succeeds had a
  password whose trimmed form verifies against the stored hash, and when the user is
  found and the database answers, the login succeeds exactly if it verifies. The
  length check reads the password as supplied: with a name and a well-formed email the
  validation passes exactly the passwords of six or more characters and refuses a
  shorter one with 400, so a password of six or more white-space characters passes,
  and when that signup succeeds the stored password is the hash of the empty string.
\<close>

theorem password_trimmed:
  "(list_all isWhiteSpace ws1 \<and> list_all isWhiteSpace ws2 \<longrightarrow>
      loginRoute cr e \<lparr>l_email = m, l_password = Some (ws1 @ p @ ws2)\<rparr> s
        = loginRoute cr e \<lparr>l_email = m, l_password = Some p\<rparr> s
      \<and> signupHandler cr e (b\<lparr>b_password := Some (ws1 @ p @ ws2)\<rparr>) s
        = signupHandler cr e (b\<lparr>b_password := Some p\<rparr>) s
      \<and> (6 \<le> length p \<longrightarrow>
            signupRoute cr e (b\<lparr>b_password := Some (ws1 @ p @ ws2)\<rparr>) s
              = signupRoute cr e (b\<lparr>b_password := Some p\<rparr>) s))
   \<and> (b_password b = Some q \<and> statusCode (fst (signupRoute cr e b s)) = 201 \<longrightarrow>
        6 \<le> length q
        \<and> (\<exists>x. users (snd (signupRoute cr e b s)) = users s @ [x]
              \<and> password x = bcrypt_hash cr (trim q) (salt e)))
   \<and> (statusCode (fst (loginRoute cr e lb s)) = 200 \<longrightarrow>
        (\<exists>q u. l_password lb = Some q \<and> findUser (loginEmail lb) s = Some u
            \<and> bcrypt_compare cr (trim q) (password u)))
   \<and> (fault e = None \<and> \<not> falsy (loginEmail lb) \<and> l_password lb = Some k \<and> trim k \<noteq> []
        \<and> findUser (loginEmail lb) s = Some u \<and> password u \<noteq> []
      \<longrightarrow> (statusCode (fst (loginRoute cr e lb s)) = 200
            \<longleftrightarrow> bcrypt_compare cr (trim k) (password u)))
   \<and> (\<not> falsy (b_name b) \<and> b_email b = Some a \<and> emailRegex a \<longrightarrow>
        (validateSignup (b\<lparr>b_password := Some c\<rparr>) = None \<longleftrightarrow> 6 \<le> length c)
        \<and> (c \<noteq> [] \<and> length c < 6 \<longrightarrow>
              signupRoute cr e (b\<lparr>b_password := Some c\<rparr>) s
                = (failure 400 ''Password must be at least 6 characters'', s)))
   \<and> (list_all isWhiteSpace w \<and> 6 \<le> length w
        \<and> statusCode (fst (signupRoute cr e (b\<lparr>b_password := Some w\<rparr>) s)) = 201
      \<longrightarrow> (\<exists>x. users (snd (signupRoute cr e (b\<lparr>b_password := Some w\<rparr>) s)) = users s @ [x]
              \<and> password x = bcrypt_hash cr [] (salt e)))"
proof (intro conjI impI)
  assume ws: "list_all isWhiteSpace ws1 \<and> list_all isWhiteSpace ws2"
  then have t: "trim (ws1 @ p @ ws2) = trim p" by (simp add: trim_padding)
  show "loginRoute cr e \<lparr>l_email = m, l_password = Some (ws1 @ p @ ws2)\<rparr> s
        = loginRoute cr e \<lparr>l_email = m, l_password = Some p\<rparr> s"
    by (simp add: loginRoute_def loginPassword_def loginEmail_def t)
  show h: "signupHandler cr e (b\<lparr>b_password := Some (ws1 @ p @ ws2)\<rparr>) s
        = signupHandler cr e (b\<lparr>b_password := Some p\<rparr>) s"
    using t by (simp add: signupHandler_def orElse_Some_Nil)
  assume "6 \<le> length p"
  then have "validateSignup (b\<lparr>b_password := Some (ws1 @ p @ ws2)\<rparr>)
      = validateSignup (b\<lparr>b_password := Some p\<rparr>)"
    by (auto simp add: validateSignup_def falsy_def orElse_def)
  with h show "signupRoute cr e (b\<lparr>b_password := Some (ws1 @ p @ ws2)\<rparr>) s
              = signupRoute cr e (b\<lparr>b_password := Some p\<rparr>) s"
    by (simp add: signupRoute_def split: option.splits)
next
  assume a: "b_password b = Some q \<and> statusCode (fst (signupRoute cr e b s)) = 201"
  then show "6 \<le> length q"
    using signupRoute_created(1) [of cr e b s] validateSignup_None_length [of b q] by blast
  from a show "\<exists>x. users (snd (signupRoute cr e b s)) = users s @ [x]
              \<and> password x = bcrypt_hash cr (trim q) (salt e)"
    using signupRoute_created(2) [of cr e b s] signupHandler_created [of cr e b s]
    by (simp add: orElse_Some_Nil)
next
  assume "statusCode (fst (loginRoute cr e lb s)) = 200"
  then show "\<exists>q u. l_password lb = Some q \<and> findUser (loginEmail lb) s = Some u
            \<and> bcrypt_compare cr (trim q) (password u)"
    using loginRoute_ok [of cr e lb s] by blast
next
  assume "fault e = None \<and> \<not> falsy (loginEmail lb) \<and> l_password lb = Some k \<and> trim k \<noteq> []
        \<and> findUser (loginEmail lb) s = Some u \<and> password u \<noteq> []"
  then show "statusCode (fst (loginRoute cr e lb s)) = 200
            \<longleftrightarrow> bcrypt_compare cr (trim k) (password u)"
    using loginRoute_compare [of e lb k s u cr] by blast
next
  assume a: "\<not> falsy (b_name b) \<and> b_email b = Some a \<and> emailRegex a"
  then show "validateSignup (b\<lparr>b_password := Some c\<rparr>) = None \<longleftrightarrow> 6 \<le> length c"
    using validateSignup_length [of b a c] by blast
  assume "c \<noteq> [] \<and> length c < 6"
  with a show "signupRoute cr e (b\<lparr>b_password := Some c\<rparr>) s
                = (failure 400 ''Password must be at least 6 characters'', s)"
    using validateSignup_short [of b a c] by (simp add: signupRoute_def)
next
  let ?b = "b\<lparr>b_password := Some w\<rparr>"
  assume a: "list_all isWhiteSpace w \<and> 6 \<le> length w
        \<and> statusCode (fst (signupRoute cr e ?b s)) = 201"
  then have "trim (orElse (b_password ?b) []) = []"
    by (simp add: orElse_Some_Nil trim_all_white)
  with a signupRoute_created(2) [of cr e ?b s] signupHandler_created [of cr e ?b s]
  show "\<exists>x. users (snd (signupRoute cr e ?b s)) = users s @ [x]
              \<and> password x = bcrypt_hash cr [] (salt e)"
    by simp
qed

theorem password_trimmed_witness:
  "list_all isWhiteSpace '' '' \<and> list_all isWhiteSpace ''  ''
   \<and> loginRoute toyCrypto quiet \<lparr>l_email = Some ''alice@x.com'', l_password = Some ('' '' @ ''secret1'' @ ''  '')\<rparr> dbA
       = loginRoute toyCrypto quiet \<lparr>l_email = Some ''alice@x.com'', l_password = Some ''secret1''\<rparr> dbA
   \<and> 6 \<le> length ''secret1''
   \<and> signupRoute toyCrypto quiet (newcomer\<lparr>b_password := Some ('' '' @ ''secret1'' @ ''  '')\<rparr>) dbA
       = signupRoute toyCrypto quiet (newcomer\<lparr>b_password := Some ''secret1''\<rparr>) dbA
   \<and> b_password newcomer = Some ''secret2''
   \<and> statusCode (fst (signupRoute toyCrypto quiet newcomer dbA)) = 201
   \<and> map password (users (snd (signupRoute toyCrypto quiet newcomer dbA)))
       = [''salt$secret1'', bcrypt_hash toyCrypto (trim ''secret2'') (salt quiet)]
   \<and> statusCode (fst (loginRoute toyCrypto quiet
         \<lparr>l_email = Some ''alice@x.com'', l_password = Some '' secret1 ''\<rparr> dbA)) = 200
   \<and> fault quiet = None
   \<and> \<not> falsy (loginEmail \<lparr>l_email = Some ''alice@x.com'', l_password = Some '' secret1 ''\<rparr>)
   \<and> trim '' secret1 '' \<noteq> []
   \<and> findUser (loginEmail \<lparr>l_email = Some ''alice@x.com'', l_password = Some '' secret1 ''\<rparr>) dbA = Some alice
   \<and> password alice \<noteq> []
   \<and> bcrypt_compare toyCrypto (trim '' secret1 '') (password alice)
   \<and> \<not> falsy (b_name newcomer) \<and> b_email newcomer = Some ''carol@x.com''
   \<and> emailRegex ''carol@x.com''
   \<and> ''abc'' \<noteq> [] \<and> length ''abc'' < 6
   \<and> validateSignup (newcomer\<lparr>b_password := Some ''abc''\<rparr>) \<noteq> None
   \<and> signupRoute toyCrypto quiet (newcomer\<lparr>b_password := Some ''abc''\<rparr>) dbA
       = (failure 400 ''Password must be at least 6 characters'', dbA)
   \<and> list_all isWhiteSpace ''      '' \<and> 6 \<le> length ''      ''
   \<and> statusCode (fst (signupRoute toyCrypto quiet (newcomer\<lparr>b_password := Some ''      ''\<rparr>) dbA)) = 201
   \<and> map password (users (snd (signupRoute toyCrypto quiet (newcomer\<lparr>b_password := Some ''      ''\<rparr>) dbA)))
       = [''salt$secret1'', bcrypt_hash toyCrypto [] (salt quiet)]"
  using password_trimmed [where ?ws1.0 = "'' ''" and ?ws2.0 = "''  ''" and cr = toyCrypto and e = quiet
      and m = "Some ''alice@x.com''" and p = "''secret1''" and s = dbA and b = newcomer
      and q = "''secret2''" and lb = "\<lparr>l_email = Some ''alice@x.com'', l_password = Some '' secret1 ''\<rparr>"
      and k = "'' secret1 ''" and u = alice and a = "''carol@x.com''" and c = "''abc''"
      and w = "''      ''"]
  by (simp add: auth_eval example_defs response_defs Let_def)

end
